theory Spec2Isabelle
  imports Complex_Main
begin

section \<open>Numbers and constants of main.py\<close>

text \<open>
  The coordinates of main.py are Python floats. A double is a real number, and the
  comparisons, \<open>max\<close> and \<open>min\<close> of doubles are exact. A product or a difference of
  doubles is the exact result rounded to a double; that rounding is the parameter \<open>fl\<close>
  of the conversion below, so nothing here depends on how a result is rounded.
  \<open>72.0 / 96.0\<close> is 0.75, which is a double.
\<close>

definition CSS_PX_TO_PT :: real where
  "CSS_PX_TO_PT = 72 / 96"

datatype error = IOError | IndexError | AttributeError

section \<open>Field descriptors and canvas operations\<close>

text \<open>
  A field is one dictionary of the list that \<open>render_html_to_pdf\<close> returns. The keys
  \<open>x\<close>, \<open>y\<close>, \<open>width\<close>, \<open>height\<close>, \<open>name\<close> and \<open>tag\<close> are read with
  \<open>f['...']\<close>; \<open>type\<close> is read with \<open>f.get('type', '')\<close> and so may be absent.
\<close>

record field =
  f_tag :: string
  f_type :: "string option"
  f_name :: string
  f_x :: real
  f_y :: real
  f_width :: real
  f_height :: real
  f_options :: "(string \<times> string) list option"

record checkbox_args =
  cb_name :: string
  cb_x :: real
  cb_y :: real
  cb_size :: real
  cb_checked :: bool

record textfield_args =
  tf_name :: string
  tf_tooltip :: string
  tf_x :: real
  tf_y :: real
  tf_width :: real
  tf_height :: real
  tf_borderStyle :: "string option"
  tf_forceBorder :: bool

text \<open>
  What the loop of \<open>make_overlay_pdf\<close> asks of ReportLab: \<open>form.checkbox\<close>,
  \<open>form.textfield\<close> and \<open>c.rect\<close>, each with the arguments of the call.
\<close>

datatype canvas_op =
    Checkbox checkbox_args
  | Textfield textfield_args
  | Rect real real real real

text \<open>
  The attributes of ReportLab's \<open>Canvas\<close> that main.py could mean. The class declares
  the property \<open>acroForm\<close>; it has no attribute \<open>acroform\<close> and no \<open>__getattr__\<close>, and
  Python compares attribute names letter by letter. Reading an attribute that an object
  does not have raises \<open>AttributeError\<close>.
\<close>

definition Canvas_attributes :: "string list" where
  "Canvas_attributes = [''acroForm'', ''rect'', ''showPage'', ''save'']"

definition getattr_Canvas :: "string \<Rightarrow> error + string" where
  "getattr_Canvas name =
     (if name \<in> set Canvas_attributes then Inr name else Inl AttributeError)"

section \<open>make\_overlay\_pdf\<close>

text \<open>Lines 67 to 72: CSS pixels to PDF points, and the vertical flip.\<close>

definition px_to_pt :: "(real \<Rightarrow> real) \<Rightarrow> real \<Rightarrow> field \<Rightarrow> real \<times> real \<times> real \<times> real" where
  "px_to_pt fl A4_HEIGHT_PT f =
     (let x_pt = fl (f_x f * CSS_PX_TO_PT);
          y_pt_css = f_y f;
          h_pt = fl (f_height f * CSS_PX_TO_PT);
          w_pt = fl (f_width f * CSS_PX_TO_PT);
          y_pt = fl (fl (A4_HEIGHT_PT - fl (y_pt_css * CSS_PX_TO_PT)) - h_pt)
      in (x_pt, y_pt, w_pt, h_pt))"

text \<open>Lines 79 and 80: the minimum sizes.\<close>

definition sanitize_w :: "real \<Rightarrow> real" where
  "sanitize_w w_pt = (if w_pt < 20 then max w_pt 40 else w_pt)"

definition sanitize_h :: "real \<Rightarrow> real" where
  "sanitize_h h_pt = (if h_pt < 10 then max h_pt 14 else h_pt)"

text \<open>
  The body of the loop, lines 66 to 97. \<open>form.textfield\<close> belongs to ReportLab; the
  source guards its styled call with \<open>try\<close>/\<open>except Exception\<close>, so whether that call
  raises is a parameter \<open>styled_raises\<close> of the model. A call that raises is taken to
  leave the canvas as it was. The calls the source does not guard (\<open>form.checkbox\<close>,
  \<open>c.rect\<close> and the bare \<open>form.textfield\<close> of the handler) are taken to succeed.
  The name of a field is a string, which \<open>str(f['name'])\<close> returns as it is.
\<close>

definition field_ops ::
  "(real \<Rightarrow> real) \<Rightarrow> (textfield_args \<Rightarrow> bool) \<Rightarrow> real \<Rightarrow> field \<Rightarrow> canvas_op list" where
  "field_ops fl styled_raises A4_HEIGHT_PT f =
     (case px_to_pt fl A4_HEIGHT_PT f of (x_pt, y_pt, w_pt0, h_pt0) \<Rightarrow>
        let name = f_name f;
            tag = f_tag f;
            typ = (case f_type f of None \<Rightarrow> '''' | Some t \<Rightarrow> t);
            w_pt = sanitize_w w_pt0;
            h_pt = sanitize_h h_pt0
        in if tag = ''input'' \<and> typ \<in> set [''checkbox'']
           then [Checkbox \<lparr>cb_name = name, cb_x = x_pt, cb_y = y_pt,
                           cb_size = min w_pt h_pt, cb_checked = False\<rparr>]
           else
             let styled = \<lparr>tf_name = name, tf_tooltip = name, tf_x = x_pt, tf_y = y_pt,
                            tf_width = w_pt, tf_height = h_pt,
                            tf_borderStyle = Some ''underlined'', tf_forceBorder = True\<rparr>
             in if \<not> styled_raises styled
                then [Textfield styled]
                else [Rect x_pt y_pt w_pt h_pt,
                      Textfield \<lparr>tf_name = name, tf_tooltip = name, tf_x = x_pt, tf_y = y_pt,
                                  tf_width = w_pt, tf_height = h_pt,
                                  tf_borderStyle = None, tf_forceBorder = False\<rparr>])"

text \<open>The loop \<open>for f in fields\<close>, threading the canvas.\<close>

fun overlay_loop ::
  "(real \<Rightarrow> real) \<Rightarrow> (textfield_args \<Rightarrow> bool) \<Rightarrow> real \<Rightarrow> field list \<Rightarrow> canvas_op list \<Rightarrow>
   canvas_op list" where
  "overlay_loop fl styled_raises A4_HEIGHT_PT [] c = c"
| "overlay_loop fl styled_raises A4_HEIGHT_PT (f # rest) c =
     overlay_loop fl styled_raises A4_HEIGHT_PT rest
       (c @ field_ops fl styled_raises A4_HEIGHT_PT f)"

text \<open>The form fields among the operations: everything but the rectangles of \<open>c.rect\<close>.\<close>

fun is_widget :: "canvas_op \<Rightarrow> bool" where
  "is_widget (Checkbox a) = True"
| "is_widget (Textfield a) = True"
| "is_widget (Rect x y w h) = False"

definition widgets :: "canvas_op list \<Rightarrow> canvas_op list" where
  "widgets ops = filter is_widget ops"

section \<open>Documents and files\<close>

text \<open>
  A PDF document is the list of its pages. A page has its media box (width and height
  in points), the content painted on it, and its annotations, which is where the
  widgets of form fields live. The files of a run are a map from paths to documents.
  \<open>PdfReader\<close> of a path that holds no document raises.
\<close>

record ('c, 'w) page =
  mediabox :: "real \<times> real"
  contents :: "'c list"
  annots :: "'w list"

text \<open>
  \<open>make_overlay_pdf\<close>, lines 62 to 100: the canvas of the A4 page size, then line 63,
  \<open>form = c.acroform\<close>, then the loop, \<open>c.showPage()\<close> and \<open>c.save()\<close>, which write a
  document of one page to \<open>overlay_path\<close>. An exception ends the function before
  anything is written. The page size \<open>A4\<close> comes from ReportLab and is a parameter.
\<close>

definition make_overlay_pdf ::
  "(real \<Rightarrow> real) \<Rightarrow> (textfield_args \<Rightarrow> bool) \<Rightarrow> real \<times> real \<Rightarrow>
   (string \<rightharpoonup> (canvas_op, canvas_op) page list) \<Rightarrow> string \<Rightarrow> field list \<Rightarrow>
   error + (string \<rightharpoonup> (canvas_op, canvas_op) page list)" where
  "make_overlay_pdf fl styled_raises A4 files overlay_path flds =
     (case getattr_Canvas ''acroform'' of
        Inl e \<Rightarrow> Inl e
      | Inr form \<Rightarrow>
          (let c = overlay_loop fl styled_raises (snd A4) flds []
           in Inr (files(overlay_path \<mapsto>
                 [\<lparr>mediabox = A4,
                   contents = filter (\<lambda>a. \<not> is_widget a) c,
                   annots = widgets c\<rparr>]))))"

section \<open>merge\_pdfs\<close>

text \<open>Python's \<open>xs[j]\<close>: a negative index counts from the end, out of range raises.\<close>

definition py_index :: "'a list \<Rightarrow> int \<Rightarrow> error + 'a" where
  "py_index xs j =
     (let n = int (length xs);
          k = (if j < 0 then j + n else j)
      in if k < 0 \<or> n \<le> k then Inl IndexError else Inr (xs ! nat k))"

text \<open>
  \<open>PageMerge(page).add(overlay_page).render()\<close> belongs to pdfrw. It takes the painted
  content of the overlay page as a form XObject and draws it after the content of
  \<open>page\<close>. The box and the annotations of \<open>page\<close> stay as they are, and the
  annotations of the overlay page are not copied. In the source it changes \<open>page\<close> in
  place; here it returns the changed page.
\<close>

definition page_merge_render :: "('c, 'w) page \<Rightarrow> ('c, 'w) page \<Rightarrow> ('c, 'w) page" where
  "page_merge_render page overlay_page =
     page\<lparr>contents := contents page @ contents overlay_page\<rparr>"

text \<open>
  The loop \<open>for i, page in enumerate(base.pages)\<close>, from index \<open>i\<close> on. The result is
  the list of the pages as the loop leaves them; an \<open>IndexError\<close> ends the loop.
\<close>

fun merge_loop ::
  "nat \<Rightarrow> ('c, 'w) page list \<Rightarrow> ('c, 'w) page list \<Rightarrow> error + ('c, 'w) page list" where
  "merge_loop i [] overlay = Inr []"
| "merge_loop i (page # rest) overlay =
     (case py_index overlay (min (int i) (int (length overlay) - 1)) of
        Inl e \<Rightarrow> Inl e
      | Inr overlay_page \<Rightarrow>
          (case merge_loop (Suc i) rest overlay of
             Inl e \<Rightarrow> Inl e
           | Inr rest' \<Rightarrow> Inr (page_merge_render page overlay_page # rest')))"

text \<open>
  \<open>merge_pdfs\<close>: both documents are read from their files, the pages of the document
  read from \<open>base_pdf_path\<close> are changed in memory, and that document is written to
  \<open>final_out_path\<close>. Nothing is written when an exception ends the function.
\<close>

definition merge_pdfs ::
  "(string \<rightharpoonup> ('c, 'w) page list) \<Rightarrow> string \<Rightarrow> string \<Rightarrow> string \<Rightarrow>
   error + (string \<rightharpoonup> ('c, 'w) page list)" where
  "merge_pdfs files base_pdf_path overlay_pdf_path final_out_path =
     (case files base_pdf_path of
        None \<Rightarrow> Inl IOError
      | Some base \<Rightarrow>
          (case files overlay_pdf_path of
             None \<Rightarrow> Inl IOError
           | Some overlay \<Rightarrow>
               (case merge_loop 0 base overlay of
                  Inl e \<Rightarrow> Inl e
                | Inr base' \<Rightarrow> Inr (files(final_out_path \<mapsto> base')))))"

section \<open>The field extraction of render\_html\_to\_pdf\<close>

text \<open>
  The JavaScript of lines 35 to 51 runs over the elements that
  \<open>document.querySelectorAll('input, select, textarea')\<close> returns, in document order.
  An element is what the script reads of it; a property that an element does not have
  (\<open>placeholder\<close> of a \<open>select\<close>) is \<open>undefined\<close>, here \<open>None\<close>.
\<close>

record element =
  el_tagName :: string
  el_type :: "string option"
  el_name :: "string option"
  el_id :: "string option"
  el_placeholder :: "string option"
  el_rect :: "real \<times> real \<times> real \<times> real"
  el_options :: "(string \<times> string) list"

text \<open>
  JavaScript's \<open>a || b\<close> on strings: \<open>a\<close> when it is truthy (a string that is not
  empty), \<open>b\<close> otherwise. \<open>js_or_else\<close> is the last \<open>||\<close> of a chain, whose right
  operand is always a string.
\<close>

definition truthy :: "string option \<Rightarrow> bool" where
  "truthy a = (case a of None \<Rightarrow> False | Some s \<Rightarrow> s \<noteq> [])"

definition js_or :: "string option \<Rightarrow> string option \<Rightarrow> string option" where
  "js_or a b = (if truthy a then a else b)"

definition js_or_else :: "string option \<Rightarrow> string \<Rightarrow> string" where
  "js_or_else a b = (case a of None \<Rightarrow> b | Some s \<Rightarrow> (if s \<noteq> [] then s else b))"

text \<open>\<open>toLowerCase\<close> on the ASCII letters of a tag name.\<close>

definition to_lower_char :: "char \<Rightarrow> char" where
  "to_lower_char c =
     (let n = (of_char c :: nat) in if 65 \<le> n \<and> n \<le> 90 then char_of (n + 32) else c)"

definition toLowerCase :: "string \<Rightarrow> string" where
  "toLowerCase s = map to_lower_char s"

text \<open>The decimal digits of an index, as \<open>'_' + idx\<close> appends them.\<close>

definition digit_char :: "nat \<Rightarrow> char" where
  "digit_char d = char_of (48 + d)"

fun string_of_nat :: "nat \<Rightarrow> string" where
  "string_of_nat n =
     (if n < 10 then [digit_char n] else string_of_nat (n div 10) @ [digit_char (n mod 10)])"

declare string_of_nat.simps [simp del]

text \<open>The callback of \<open>nodes.map((el, idx) => ...)\<close>.\<close>

definition extract_field :: "element \<Rightarrow> nat \<Rightarrow> field" where
  "extract_field el idx =
     (case el_rect el of (rx, ry, rwidth, rheight) \<Rightarrow>
        let tag = toLowerCase (el_tagName el);
            type = js_or_else (el_type el) '''';
            name = js_or_else (js_or (js_or (el_name el) (el_id el)) (el_placeholder el))
                     (tag @ ''_'' @ string_of_nat idx);
            options = (if tag = ''select'' then Some (el_options el) else None)
        in \<lparr>f_tag = tag, f_type = Some type, f_name = name,
            f_x = rx, f_y = ry, f_width = rwidth, f_height = rheight,
            f_options = options\<rparr>)"

definition render_html_to_pdf :: "element list \<Rightarrow> field list" where
  "render_html_to_pdf nodes = map (\<lambda>(idx, el). extract_field el idx) (enumerate 0 nodes)"

text \<open>
  The resolution order in the words of the specification: the first of name, id and
  placeholder that is present and not empty, else the synthesized name.
\<close>

definition spec_resolved_name :: "element \<Rightarrow> string \<Rightarrow> nat \<Rightarrow> string" where
  "spec_resolved_name el tag ordinal =
     (case find truthy [el_name el, el_id el, el_placeholder el] of
        Some (Some s) \<Rightarrow> s
      | _ \<Rightarrow> tag @ ''_'' @ string_of_nat ordinal)"

section \<open>Concrete descriptors, documents and elements\<close>

text \<open>
  The descriptor of the specification's example with the height of A4 it uses, a
  checkbox, a select of size zero that shares its name with the checkbox, and a textarea
  that lies below the first page.
\<close>

definition example_field :: field where
  "example_field =
     \<lparr>f_tag = ''input'', f_type = Some ''text'', f_name = ''email'',
      f_x = 100, f_y = 50, f_width = 200, f_height = 20, f_options = None\<rparr>"

definition example_height :: real where
  "example_height = 841.89"

definition checkbox_field :: field where
  "checkbox_field =
     \<lparr>f_tag = ''input'', f_type = Some ''checkbox'', f_name = ''agree'',
      f_x = 40, f_y = 400, f_width = 16, f_height = 16, f_options = None\<rparr>"

definition select_field :: field where
  "select_field =
     \<lparr>f_tag = ''select'', f_type = Some ''select-one'', f_name = ''agree'',
      f_x = 40, f_y = 600, f_width = 0, f_height = 0,
      f_options = Some [(''a'', ''A'')]\<rparr>"

definition off_page_field :: field where
  "off_page_field =
     \<lparr>f_tag = ''textarea'', f_type = Some ''textarea'', f_name = ''notes'',
      f_x = 40, f_y = 2000, f_width = 400, f_height = 80, f_options = None\<rparr>"

text \<open>
  A base document of three pages, an overlay of one page that paints a rectangle and
  carries the widget of one field, what \<open>merge_pdfs\<close> makes of them, and the files that
  hold them; and files whose overlay has no page.
\<close>

definition example_base :: "(string, string) page list" where
  "example_base =
     [\<lparr>mediabox = (595.27, 841.89), contents = [''page one''], annots = []\<rparr>,
      \<lparr>mediabox = (595.27, 841.89), contents = [''page two''], annots = []\<rparr>,
      \<lparr>mediabox = (595.27, 841.89), contents = [''page three''], annots = []\<rparr>]"

definition example_overlay :: "(string, string) page list" where
  "example_overlay =
     [\<lparr>mediabox = (595.27, 841.89), contents = [''rectangle''],
       annots = [''widget email'']\<rparr>]"

definition example_merged :: "(string, string) page list" where
  "example_merged =
     [\<lparr>mediabox = (595.27, 841.89), contents = [''page one'', ''rectangle''], annots = []\<rparr>,
      \<lparr>mediabox = (595.27, 841.89), contents = [''page two'', ''rectangle''], annots = []\<rparr>,
      \<lparr>mediabox = (595.27, 841.89), contents = [''page three'', ''rectangle''],
       annots = []\<rparr>]"

definition example_files :: "string \<rightharpoonup> (string, string) page list" where
  "example_files = [''base.pdf'' \<mapsto> example_base, ''overlay.pdf'' \<mapsto> example_overlay]"

definition empty_overlay_files :: "string \<rightharpoonup> (string, string) page list" where
  "empty_overlay_files =
     [''base.pdf'' \<mapsto>
        [\<lparr>mediabox = (595.27, 841.89), contents = [''page one''], annots = []\<rparr>],
      ''overlay.pdf'' \<mapsto> []]"

text \<open>
  Five elements in document order: a select with a name, a textarea with only an id,
  an input with only a placeholder, the select again, and an input with none of the
  three.
\<close>

definition named_select :: element where
  "named_select =
     \<lparr>el_tagName = ''SELECT'', el_type = Some ''select-one'', el_name = Some ''country'',
      el_id = Some ''c1'', el_placeholder = None, el_rect = (10, 20, 200, 24),
      el_options = [(''vn'', ''Vietnam'')]\<rparr>"

definition id_textarea :: element where
  "id_textarea =
     \<lparr>el_tagName = ''TEXTAREA'', el_type = Some ''textarea'', el_name = Some '''',
      el_id = Some ''notes'', el_placeholder = Some ''Notes'', el_rect = (10, 60, 400, 80),
      el_options = []\<rparr>"

definition placeholder_input :: element where
  "placeholder_input =
     \<lparr>el_tagName = ''INPUT'', el_type = Some ''email'', el_name = Some '''',
      el_id = Some '''', el_placeholder = Some ''Your email'', el_rect = (10, 160, 200, 20),
      el_options = []\<rparr>"

definition bare_input :: element where
  "bare_input =
     \<lparr>el_tagName = ''INPUT'', el_type = Some ''text'', el_name = Some '''',
      el_id = Some '''', el_placeholder = Some '''', el_rect = (10, 200, 200, 20),
      el_options = []\<rparr>"

definition example_nodes :: "element list" where
  "example_nodes = [named_select, id_textarea, placeholder_input, named_select, bare_input]"

section \<open>Line 63 of make\_overlay\_pdf\<close>

lemma CSS_PX_TO_PT_value: "CSS_PX_TO_PT = 0.75"
  by (simp add: CSS_PX_TO_PT_def)

text \<open>
  The canvas has the attribute \<open>acroForm\<close> and not the attribute \<open>acroform\<close> that line
  63 reads, so the function raises before its loop, whatever it is given.
\<close>

lemma getattr_Canvas_acroForm: "getattr_Canvas ''acroForm'' = Inr ''acroForm''"
  by (simp add: getattr_Canvas_def Canvas_attributes_def)

lemma getattr_Canvas_acroform: "getattr_Canvas ''acroform'' = Inl AttributeError"
  by (simp add: getattr_Canvas_def Canvas_attributes_def)

lemma make_overlay_pdf_raises:
  "make_overlay_pdf fl styled_raises A4 files overlay_path flds = Inl AttributeError"
  by (simp add: make_overlay_pdf_def getattr_Canvas_acroform)

section \<open>The conversion from pixels to points\<close>

text \<open>
  C1. The claim is that the mapper computes, for every field descriptor, the widget
  rectangle \<open>x_pt = x * 0.75\<close>, \<open>w_pt = width * 0.75\<close>, \<open>h_pt = height * 0.75\<close>,
  \<open>y_pt = page_height_pt - y * 0.75 - h_pt\<close>, which for the box
  \<open>{x: 100, y: 50, width: 200, height: 20}\<close> and the page height 841.89 is
  \<open>(75, 789.39, 150, 15)\<close>. Lines 67 to 72 are written to do so, but the function does
  not get there: given the list that holds this descriptor it raises
  \<open>AttributeError\<close> at line 63, computes no rectangle and writes no overlay.
\<close>

theorem conversion_not_reached:
  "make_overlay_pdf fl styled_raises (595.27, example_height) files overlay_path
     [example_field] = Inl AttributeError"
  by (rule make_overlay_pdf_raises)

section \<open>The minimum-size policy\<close>

text \<open>
  C2. The minimum-size policy has two thresholds: a converted width strictly below 20
  is replaced by exactly 40 and any other width is unchanged; a converted height
  strictly below 10 is replaced by exactly 14 and any other height is unchanged.
  A width of 20 pixels converts to 15 points and becomes 40; a width of 100/3 pixels
  converts to 25 points and stays 25.
\<close>

theorem sanitize_two_thresholds:
  "sanitize_w w_pt = (if w_pt < 20 then 40 else w_pt) \<and>
   sanitize_h h_pt = (if h_pt < 10 then 14 else h_pt) \<and>
   sanitize_w (20 * CSS_PX_TO_PT) = 40 \<and>
   sanitize_w (100 / 3 * CSS_PX_TO_PT) = 25"
  by (simp add: sanitize_w_def sanitize_h_def CSS_PX_TO_PT_def)

theorem sanitize_two_thresholds_witness:
  "sanitize_w 15 = 40 \<and> sanitize_w 25 = 25 \<and> sanitize_w 20 = 20 \<and>
   sanitize_h 9 = 14 \<and> sanitize_h 10 = 10"
  using sanitize_two_thresholds [of 15 9] sanitize_two_thresholds [of 25 10]
    sanitize_two_thresholds [of 20 10]
  by simp

section \<open>The kind of a widget\<close>

text \<open>
  C3. The claim is that a field descriptor becomes a checkbox widget, the square of
  side \<open>min(w_pt, h_pt)\<close>, if and only if its tag is \<open>input\<close> and its type is
  \<open>checkbox\<close>, and a text widget with the full rectangle otherwise. Lines 83 to 97 are
  written to do so, but the function does not get there: given a checkbox, a select
  and a text input it raises \<open>AttributeError\<close> at line 63 and makes neither a checkbox
  nor a text widget.
\<close>

theorem classification_not_reached:
  "make_overlay_pdf fl styled_raises A4 files overlay_path
     [checkbox_field, select_field, example_field] = Inl AttributeError"
  by (rule make_overlay_pdf_raises)

section \<open>One widget for each field\<close>

text \<open>
  C4. The claim is that for a list of N field descriptors the mapper emits exactly N
  widgets, in the order of the list. The function emits none: for every list of
  fields, the empty list too, it raises \<open>AttributeError\<close> at line 63, before the loop
  that would add the widgets, and writes no overlay document.
\<close>

theorem no_widget_for_any_field_list:
  "make_overlay_pdf fl styled_raises A4 files overlay_path flds = Inl AttributeError
   \<and> make_overlay_pdf fl styled_raises A4 files overlay_path [] = Inl AttributeError"
  by (simp add: make_overlay_pdf_raises)

section \<open>The sizes after the policy\<close>

lemma sanitize_w_ge: "20 \<le> sanitize_w w"
  by (simp add: sanitize_w_def)

lemma sanitize_h_ge: "10 \<le> sanitize_h h"
  by (simp add: sanitize_h_def)




text \<open>
  C9. Whatever the box of a descriptor, and so for every box whose width and height are
  not negative, the sizes after the policy are at least 20 and 10 points; the width is
  exactly 40 when the converted width is below 20 and is the converted width
  otherwise (24 stays 24, between 20 and 40), and likewise 14 for the height. So the
  size \<open>min(w_pt, h_pt)\<close> of a checkbox is at least 10, and no size is zero or
  negative.
\<close>

theorem post_policy_dimensions:
  "20 \<le> sanitize_w w_pt \<and> 10 \<le> sanitize_h h_pt
   \<and> sanitize_w w_pt = (if w_pt < 20 then 40 else w_pt)
   \<and> sanitize_h h_pt = (if h_pt < 10 then 14 else h_pt)
   \<and> 10 \<le> min (sanitize_w w_pt) (sanitize_h h_pt)
   \<and> 0 < min (sanitize_w w_pt) (sanitize_h h_pt)
   \<and> 0 < sanitize_w w_pt \<and> 0 < sanitize_h h_pt
   \<and> sanitize_w 24 = 24"
proof -
  have w: "20 \<le> sanitize_w w_pt" and h: "10 \<le> sanitize_h h_pt"
    by (rule sanitize_w_ge, rule sanitize_h_ge)
  have eqs: "sanitize_w w_pt = (if w_pt < 20 then 40 else w_pt)
      \<and> sanitize_h h_pt = (if h_pt < 10 then 14 else h_pt) \<and> sanitize_w 24 = 24"
    by (simp add: sanitize_w_def sanitize_h_def)
  from w h have m: "10 \<le> min (sanitize_w w_pt) (sanitize_h h_pt)" by simp
  from m have mp: "0 < min (sanitize_w w_pt) (sanitize_h h_pt)" by linarith
  from w have wp: "0 < sanitize_w w_pt" by linarith
  from h have hp: "0 < sanitize_h h_pt" by linarith
  from w h eqs m mp wp hp show ?thesis by blast
qed

theorem post_policy_dimensions_witness:
  "sanitize_w 12 = 40 \<and> sanitize_h 12 = 12 \<and> min (sanitize_w 12) (sanitize_h 12) = 12
   \<and> sanitize_w 0 = 40 \<and> sanitize_h 0 = 14 \<and> min (sanitize_w 0) (sanitize_h 0) = 14"
  using post_policy_dimensions [of 12 12] post_policy_dimensions [of 0 0]
  by simp

section \<open>Widgets beyond the page\<close>

text \<open>
  C10. The claim is that a field whose converted box ends below the first page
  (\<open>y * 0.75 + h_pt > page_height_pt\<close>) gets a negative \<open>y_pt\<close> and that its widget is
  still emitted, at that coordinate, on the one page of the overlay. Line 72 does not
  clamp, but no widget is emitted: given a textarea at \<open>y = 2000\<close> of height 80, which
  ends at 1560 points, below the 841.89 of the page, the function raises
  \<open>AttributeError\<close> at line 63 and writes no overlay page.
\<close>

theorem off_page_widget_not_emitted:
  "example_height < f_y off_page_field * CSS_PX_TO_PT + f_height off_page_field * CSS_PX_TO_PT
   \<and> make_overlay_pdf fl styled_raises (595.27, example_height) files overlay_path
        [off_page_field] = Inl AttributeError"
  by (simp add: make_overlay_pdf_raises off_page_field_def example_height_def CSS_PX_TO_PT_def)

section \<open>Merging the overlay onto the base\<close>

text \<open>With an overlay that has a page, the index of the loop is always in range.\<close>

lemma py_index_nat: "k < length xs \<Longrightarrow> py_index xs (int k) = Inr (xs ! k)"
  by (simp add: py_index_def Let_def)

lemma py_index_clamped:
  assumes "overlay \<noteq> []"
  shows "py_index overlay (min (int i) (int (length overlay) - 1)) =
           Inr (overlay ! min i (length overlay - 1))"
proof -
  obtain n where n: "length overlay = Suc n"
    using assms by (cases overlay) auto
  have m: "min (int i) (int (length overlay) - 1) = int (min i (length overlay - 1))"
    by (simp add: n)
  have lt: "min i (length overlay - 1) < length overlay"
    by (simp add: n)
  show ?thesis
    unfolding m by (rule py_index_nat [OF lt])
qed

lemma py_index_empty: "py_index [] j = Inl IndexError"
  by (simp add: py_index_def Let_def)

lemma merge_loop_ok:
  "overlay \<noteq> [] \<Longrightarrow>
   merge_loop i base overlay =
     Inr (map (\<lambda>(k, page). page_merge_render page (overlay ! min k (length overlay - 1)))
           (enumerate i base))"
  by (induction base arbitrary: i) (simp_all add: py_index_clamped)

lemma merge_loop_empty_overlay: "base \<noteq> [] \<Longrightarrow> merge_loop i base [] = Inl IndexError"
  by (cases base) (simp_all add: py_index_empty)

text \<open>
  What the loop makes of a base when the overlay has a page: as many pages, each with
  the box and the annotations of the base page and with the painted content of overlay
  page \<open>min(i, len(overlay.pages) - 1)\<close> after its own.
\<close>

lemma merge_loop_pages:
  assumes "overlay \<noteq> []"
  shows "\<exists>out. merge_loop 0 base overlay = Inr out \<and> length out = length base
           \<and> (\<forall>i < length base.
                 mediabox (out ! i) = mediabox (base ! i)
                 \<and> contents (out ! i) =
                     contents (base ! i) @ contents (overlay ! min i (length overlay - 1))
                 \<and> annots (out ! i) = annots (base ! i))"
proof -
  define out where
    "out = map (\<lambda>(k, page). page_merge_render page (overlay ! min k (length overlay - 1)))
             (enumerate 0 base)"
  have loop: "merge_loop 0 base overlay = Inr out"
    unfolding out_def by (rule merge_loop_ok [OF assms])
  have len: "length out = length base"
    by (simp add: out_def)
  have "\<forall>i < length base.
          mediabox (out ! i) = mediabox (base ! i)
          \<and> contents (out ! i) =
              contents (base ! i) @ contents (overlay ! min i (length overlay - 1))
          \<and> annots (out ! i) = annots (base ! i)"
    by (simp add: out_def nth_enumerate_eq page_merge_render_def)
  with loop len show ?thesis by blast
qed

lemmas merge_example_defs = example_base_def example_overlay_def example_merged_def
  example_files_def empty_overlay_files_def

lemmas merge_eval_defs = merge_pdfs_def py_index_def page_merge_render_def Let_def

text \<open>
  C5. The claim is that for a base of P pages, P at least 1, and an overlay with fewer
  pages, the merge composites overlay page \<open>min(i, overlay.page_count - 1)\<close> onto base
  page i, never raises, and gives P pages of the sizes of the base, so that a base of
  three pages and an overlay of one page give three pages that each carry the widgets
  of that overlay page. The code does not: for that base and an overlay page that
  carries a widget it writes three pages of the right sizes with the painted content
  of the overlay page added and with no widget on any of them; and for an overlay
  without pages under a base of one page \<open>overlay.pages[-1]\<close> raises \<open>IndexError\<close>.
\<close>

theorem merge_drops_overlay_widgets:
  "merge_pdfs example_files ''base.pdf'' ''overlay.pdf'' ''final.pdf'' =
     Inr (example_files(''final.pdf'' \<mapsto> example_merged))
   \<and> map annots example_overlay = [[''widget email'']]
   \<and> map annots example_merged = [[], [], []]
   \<and> map mediabox example_merged = map mediabox example_base
   \<and> merge_pdfs empty_overlay_files ''base.pdf'' ''overlay.pdf'' ''final.pdf'' = Inl IndexError"
  by (simp add: merge_example_defs merge_eval_defs)

section \<open>What the merge leaves unchanged\<close>

text \<open>
  C7, as stated: after the merge the base document has the pages and contents it had
  before. It fails when the output path is the path of the base: the document written
  there is the base with the overlay added to every page.
\<close>

theorem merge_in_place_overwrites_base:
  "example_files ''base.pdf'' = Some example_base
   \<and> merge_pdfs example_files ''base.pdf'' ''overlay.pdf'' ''base.pdf'' =
        Inr (example_files(''base.pdf'' \<mapsto> example_merged))
   \<and> (example_files(''base.pdf'' \<mapsto> example_merged)) ''base.pdf'' = Some example_merged
   \<and> example_merged \<noteq> example_base"
  by (simp add: merge_example_defs merge_eval_defs)

text \<open>
  C7, amended. When the output path differs from the paths of the base and of the
  overlay, the documents stored at those two paths are the same after the merge as
  before; the merge writes the file at the output path and no other, and the document
  it writes there is what the loop made of the base read from its file.
\<close>

theorem merge_leaves_other_files:
  assumes "merge_pdfs files base_pdf_path overlay_pdf_path final_out_path = Inr files'"
    and "final_out_path \<noteq> base_pdf_path" and "final_out_path \<noteq> overlay_pdf_path"
  shows "files' base_pdf_path = files base_pdf_path
       \<and> files' overlay_pdf_path = files overlay_pdf_path
       \<and> (\<forall>p. p \<noteq> final_out_path \<longrightarrow> files' p = files p)
       \<and> (\<exists>base overlay out. files base_pdf_path = Some base
            \<and> files overlay_pdf_path = Some overlay
            \<and> merge_loop 0 base overlay = Inr out
            \<and> files' final_out_path = Some out)"
  using assms
  by (auto simp add: merge_pdfs_def split: option.splits sum.splits)

theorem merge_leaves_other_files_witness:
  "merge_pdfs example_files ''base.pdf'' ''overlay.pdf'' ''final.pdf'' =
        Inr (example_files(''final.pdf'' \<mapsto> example_merged))
   \<and> ''final.pdf'' \<noteq> ''base.pdf'' \<and> ''final.pdf'' \<noteq> ''overlay.pdf''
   \<and> (example_files(''final.pdf'' \<mapsto> example_merged)) ''base.pdf'' = Some example_base
   \<and> (example_files(''final.pdf'' \<mapsto> example_merged)) ''overlay.pdf'' = Some example_overlay
   \<and> (example_files(''final.pdf'' \<mapsto> example_merged)) ''final.pdf'' = Some example_merged"
  using merge_leaves_other_files
    [of example_files "''base.pdf''" "''overlay.pdf''" "''final.pdf''"
        "example_files(''final.pdf'' \<mapsto> example_merged)"]
  by (simp add: merge_example_defs merge_eval_defs)

section \<open>The name of an extracted field\<close>

lemma toLowerCase_INPUT: "toLowerCase ''INPUT'' = ''input''"
  by code_simp

lemma toLowerCase_examples:
  "toLowerCase ''SELECT'' = ''select''" "toLowerCase ''TEXTAREA'' = ''textarea''"
  by code_simp+

lemma string_of_nat_4: "string_of_nat 4 = ''4''"
  by code_simp

lemma string_of_nat_nonempty: "string_of_nat n \<noteq> []"
  by (subst string_of_nat.simps) simp

lemma render_html_to_pdf_nth:
  "i < length nodes \<Longrightarrow> render_html_to_pdf nodes ! i = extract_field (nodes ! i) i"
  by (simp add: render_html_to_pdf_def nth_enumerate_eq)

lemma render_html_to_pdf_length: "length (render_html_to_pdf nodes) = length nodes"
  by (simp add: render_html_to_pdf_def)

lemma f_name_extract_field:
  "f_name (extract_field el idx) =
     js_or_else (js_or (js_or (el_name el) (el_id el)) (el_placeholder el))
       (toLowerCase (el_tagName el) @ ''_'' @ string_of_nat idx)"
  by (simp add: extract_field_def Let_def split: prod.splits)

lemma f_tag_extract_field: "f_tag (extract_field el idx) = toLowerCase (el_tagName el)"
  by (simp add: extract_field_def Let_def split: prod.splits)

lemma js_chain_spec:
  "js_or_else (js_or (js_or a b) c) d =
     (case find truthy [a, b, c] of Some (Some s) \<Rightarrow> s | _ \<Rightarrow> d)"
  by (auto simp add: js_or_else_def js_or_def truthy_def split: option.splits)

text \<open>
  C8. The extractor names the control at discovery index i by the first of its name,
  its id and its placeholder that is present and not empty, in that order, and by
  \<open>tag_i\<close> (lower-case tag, underscore, the index in decimal, counted from 0) when
  none is. An input without name, id and placeholder at index 4 is named \<open>input_4\<close>.
\<close>

theorem name_resolution_order:
  assumes "i < length nodes"
  shows "f_name (render_html_to_pdf nodes ! i) =
           spec_resolved_name (nodes ! i) (toLowerCase (el_tagName (nodes ! i))) i
       \<and> f_tag (render_html_to_pdf nodes ! i) = toLowerCase (el_tagName (nodes ! i))
       \<and> (\<forall>s. el_name (nodes ! i) = Some s \<and> s \<noteq> [] \<longrightarrow>
             f_name (render_html_to_pdf nodes ! i) = s)
       \<and> (\<forall>s. \<not> truthy (el_name (nodes ! i)) \<and> el_id (nodes ! i) = Some s \<and> s \<noteq> [] \<longrightarrow>
             f_name (render_html_to_pdf nodes ! i) = s)
       \<and> (\<forall>s. \<not> truthy (el_name (nodes ! i)) \<and> \<not> truthy (el_id (nodes ! i)) \<and>
              el_placeholder (nodes ! i) = Some s \<and> s \<noteq> [] \<longrightarrow>
             f_name (render_html_to_pdf nodes ! i) = s)
       \<and> (\<not> truthy (el_name (nodes ! i)) \<and> \<not> truthy (el_id (nodes ! i)) \<and>
            \<not> truthy (el_placeholder (nodes ! i)) \<longrightarrow>
             f_name (render_html_to_pdf nodes ! i) =
               toLowerCase (el_tagName (nodes ! i)) @ ''_'' @ string_of_nat i)
       \<and> f_name (render_html_to_pdf nodes ! i) \<noteq> []
       \<and> length (render_html_to_pdf nodes) = length nodes
       \<and> f_name (render_html_to_pdf example_nodes ! 4) = ''input_4''"
proof -
  let ?el = "nodes ! i"
  let ?n = "f_name (render_html_to_pdf nodes ! i)"
  let ?d = "toLowerCase (el_tagName ?el) @ ''_'' @ string_of_nat i"
  have n: "?n = js_or_else (js_or (js_or (el_name ?el) (el_id ?el)) (el_placeholder ?el)) ?d"
    using assms by (simp add: render_html_to_pdf_nth f_name_extract_field)
  have spec: "?n = spec_resolved_name ?el (toLowerCase (el_tagName ?el)) i"
    unfolding n spec_resolved_name_def by (rule js_chain_spec)
  have tag: "f_tag (render_html_to_pdf nodes ! i) = toLowerCase (el_tagName ?el)"
    using assms by (simp add: render_html_to_pdf_nth f_tag_extract_field)
  have c1: "\<forall>s. el_name ?el = Some s \<and> s \<noteq> [] \<longrightarrow> ?n = s"
    by (simp add: n js_or_else_def js_or_def truthy_def)
  have c2: "\<forall>s. \<not> truthy (el_name ?el) \<and> el_id ?el = Some s \<and> s \<noteq> [] \<longrightarrow> ?n = s"
    by (simp add: n js_or_else_def js_or_def truthy_def)
  have c3: "\<forall>s. \<not> truthy (el_name ?el) \<and> \<not> truthy (el_id ?el) \<and>
              el_placeholder ?el = Some s \<and> s \<noteq> [] \<longrightarrow> ?n = s"
    by (simp add: n js_or_else_def js_or_def truthy_def)
  have c4: "\<not> truthy (el_name ?el) \<and> \<not> truthy (el_id ?el) \<and>
            \<not> truthy (el_placeholder ?el) \<longrightarrow> ?n = ?d"
    by (auto simp add: n js_or_else_def js_or_def truthy_def split: option.splits)
  have ne: "?n \<noteq> []"
    by (auto simp add: n js_or_else_def js_or_def truthy_def split: option.splits)
  have len: "length (render_html_to_pdf nodes) = length nodes"
    by (rule render_html_to_pdf_length)
  have ex: "f_name (render_html_to_pdf example_nodes ! 4) = ''input_4''"
    by (simp add: render_html_to_pdf_nth f_name_extract_field example_nodes_def bare_input_def
        js_or_else_def js_or_def truthy_def toLowerCase_INPUT string_of_nat_4)
  from spec tag c1 c2 c3 c4 ne len ex show ?thesis by blast
qed

theorem name_resolution_order_witness:
  "(4::nat) < length example_nodes
   \<and> map f_name (render_html_to_pdf example_nodes) =
       [''country'', ''notes'', ''Your email'', ''country'', ''input_4'']
   \<and> map f_tag (render_html_to_pdf example_nodes) =
       [''select'', ''textarea'', ''input'', ''select'', ''input'']"
  using name_resolution_order [of 4 example_nodes]
  by (simp add: render_html_to_pdf_def enumerate_eq_zip upt_rec extract_field_def Let_def
      example_nodes_def bare_input_def named_select_def id_textarea_def placeholder_input_def
        js_or_else_def js_or_def truthy_def toLowerCase_INPUT toLowerCase_examples string_of_nat_4)

end
